theory Spec2Isabelle
  imports Complex_Main
begin

section \<open>Python values, exceptions and dictionaries\<close>

text \<open>
  The two source files are the classes \<open>AutoEncoder\<close> (autoencoder_model.py) and
  \<open>MfccInverter\<close> (mfcc_inverter.py).  Option values are Python scalars; a dictionary is a
  map from its string keys; an exception is a value of \<open>py_error\<close>.  What a collaborator
  that is not part of the two files raises (the encoder, the decoder, the bottlenecks, the
  range resolver, k-means) is carried by \<open>External\<close>, so that it is never confused with an
  exception the two files raise themselves.
\<close>

datatype pyval = PyNone | PyBool bool | PyInt int | PyFloat real | PyStr string

type_synonym pydict = "string \<rightharpoonup> pyval"

datatype py_error =
    KeyError string
  | AttributeError string
  | NameError string
  | TypeError string
  | RuntimeError string
  | ValueError string
  | IndexError string
  | StopIteration
  | External string

text \<open>\<open>d[k]\<close>: a missing key raises \<open>KeyError\<close>.\<close>

definition getitem :: "(string \<rightharpoonup> 'v) \<Rightarrow> string \<Rightarrow> py_error + 'v" where
  "getitem d k = (case d k of None \<Rightarrow> Inl (KeyError k) | Some v \<Rightarrow> Inr v)"

text \<open>\<open>self.name\<close> for an attribute that is only there once it has been assigned.\<close>

definition getattr :: "'v option \<Rightarrow> string \<Rightarrow> py_error + 'v" where
  "getattr a name = (case a of None \<Rightarrow> Inl (AttributeError name) | Some v \<Rightarrow> Inr v)"

text \<open>The result of a call into a collaborator, with its exception wrapped.\<close>

definition ext :: "string + 'v \<Rightarrow> py_error + 'v" where
  "ext r = (case r of Inl msg \<Rightarrow> Inl (External msg) | Inr v \<Rightarrow> Inr v)"

text \<open>Sequencing of computations that may raise: the first exception ends the sequence.\<close>

definition and_then :: "py_error + 'v \<Rightarrow> ('v \<Rightarrow> py_error + 'u) \<Rightarrow> py_error + 'u" where
  "and_then r f = (case r of Inl e \<Rightarrow> Inl e | Inr v \<Rightarrow> f v)"

section \<open>Grid ranges and the nodes of the convolution chain\<close>

text \<open>
  Modelled from the spec: the class \<open>vconv.GridRange\<close> is not in the two files.  The spec
  gives it the three fields \<open>lower_bound\<close>, \<open>sub_range\<close> and \<open>stride\<close>, built positionally
  in that order; the source reads the second one as \<open>.sub[0]\<close> and \<open>.sub[1]\<close>.
\<close>

record GridRange =
  lower_bound :: "int \<times> int"
  sub :: "int \<times> int"
  stride :: int

text \<open>
  Modelled from the spec: \<open>GridRange.sub_length\<close> is not in the two files; the spec says
  it returns \<open>sub_range.hi - sub_range.lo\<close>.
\<close>

definition sub_length :: "GridRange \<Rightarrow> int" where
  "sub_length gr = snd (sub gr) - fst (sub gr)"

text \<open>
  A node of the chain is referred to by a handle.  Of a node the two files read the
  attributes \<open>parent\<close>, \<open>child\<close> and \<open>input_gr\<close> (the latter is there once the
  resolver has stored it).
\<close>

record vc_node =
  parent :: "nat option"
  child :: "nat option"
  input_gr :: "GridRange option"

type_synonym vc_heap = "nat \<Rightarrow> vc_node"

text \<open>
  The geometry resolver \<open>vconv\<close> is not in the two files.  Its functions
  \<open>input_range\<close> and \<open>output_range\<close> are parameters: the spec describes them as free
  functions from two nodes of the chain and a range to a range, over nodes that are
  immutable once the chain is assembled.  The begin node of \<open>input_range\<close> is optional
  because the source may pass \<open>None\<close> there.

  Modelled from the spec: \<open>compute_inputs\<close> is the wrapper that locates the input range
  at the nodes above the given one; the source reads the ranges back from the nodes'
  \<open>input_gr\<close>.  It is a parameter that returns the range it ends with and the ranges
  it stores, by node; what it stores depends on the node and the range it is given only.
\<close>

text \<open>
  The method \<open>VirtualConv.in_len\<close> is not in the two files either, and the spec does
  not describe it.  It is a parameter as well: what the method returns for a node, given
  the node's handle and its attributes at the time of the call.
\<close>

record resolver =
  input_range :: "nat option \<Rightarrow> nat \<Rightarrow> GridRange \<Rightarrow> string + GridRange"
  output_range :: "nat \<Rightarrow> nat \<Rightarrow> GridRange \<Rightarrow> string + GridRange"
  compute_inputs :: "nat \<Rightarrow> GridRange \<Rightarrow> string + (GridRange \<times> (nat \<rightharpoonup> GridRange))"
  in_len :: "nat \<Rightarrow> vc_node \<Rightarrow> string + int"

definition store_input_gr :: "(nat \<rightharpoonup> GridRange) \<Rightarrow> vc_heap \<Rightarrow> vc_heap" where
  "store_input_gr new heap =
     (\<lambda>h. case new h of None \<Rightarrow> heap h | Some gr \<Rightarrow> (heap h)\<lparr>input_gr := Some gr\<rparr>)"

text \<open>
  \<open>torch.tensor([a, b], dtype=torch.long)\<close>: a pair of 64-bit signed integers; a Python
  integer outside that range is refused by torch with a \<open>RuntimeError\<close>.
\<close>

definition in_int64 :: "int \<Rightarrow> bool" where
  "in_int64 i = (- (2 ^ 63) \<le> i \<and> i < 2 ^ 63)"

definition torch_long_pair :: "int \<Rightarrow> int \<Rightarrow> py_error + (int \<times> int)" where
  "torch_long_pair a b =
     (if in_int64 a \<and> in_int64 b then Inr (a, b)
      else Inl (RuntimeError ''Overflow when unpacking long''))"

section \<open>Tensors\<close>

text \<open>
  A tensor of at least one dimension: its outer dimensions, the length of its final
  dimension, and its entries as the list of its final-dimension vectors in row-major
  order.  A two-dimensional tensor of shape \<open>(n, k)\<close> has \<open>outer = [n]\<close>,
  \<open>width = k\<close> and its \<open>n\<close> rows as \<open>vecs\<close>.  The entries are of an arbitrary type:
  the two files only move them.
\<close>

record 'a tensor =
  outer :: "nat list"
  width :: nat
  vecs :: "'a list list"


text \<open>
  A slice bound on a dimension of length \<open>n\<close>, as Python clamps it: a negative bound
  counts from the end, and a bound beyond either end stops there.
\<close>

definition slice_index :: "nat \<Rightarrow> int \<Rightarrow> nat" where
  "slice_index n i = (if i < 0 then nat (int n + i) else min n (nat i))"

definition slice_from :: "nat \<Rightarrow> int option \<Rightarrow> nat" where
  "slice_from n start = (case start of None \<Rightarrow> 0 | Some i \<Rightarrow> slice_index n i)"

definition slice_to :: "nat \<Rightarrow> int option \<Rightarrow> nat" where
  "slice_to n stop = (case stop of None \<Rightarrow> n | Some j \<Rightarrow> slice_index n j)"

text \<open>\<open>xs[start:stop]\<close> on a list.\<close>

definition py_slice :: "int option \<Rightarrow> int option \<Rightarrow> 'a list \<Rightarrow> 'a list" where
  "py_slice start stop xs =
     (let a = slice_from (length xs) start; b = slice_to (length xs) stop
      in take (b - a) (drop a xs))"

text \<open>\<open>t[..., start:stop]\<close>: the slice of the final dimension.\<close>

definition slice_last :: "int option \<Rightarrow> int option \<Rightarrow> 'a tensor \<Rightarrow> 'a tensor" where
  "slice_last start stop t =
     t\<lparr>width := slice_to (width t) stop - slice_from (width t) start,
       vecs := map (py_slice start stop) (vecs t)\<rparr>"

text \<open>
  \<open>t[:, start:stop]\<close>: the slice of dimension 1.  A one-dimensional tensor has no
  dimension 1; for a two-dimensional tensor dimension 1 is the final one.
\<close>

definition slice_dim1 :: "int \<Rightarrow> int \<Rightarrow> 'a tensor \<Rightarrow> py_error + 'a tensor" where
  "slice_dim1 start stop t =
     (case outer t of
        [] \<Rightarrow> Inl (IndexError ''too many indices for tensor of dimension 1'')
      | [d0] \<Rightarrow> Inr (slice_last (Some start) (Some stop) t)
      | d0 # d1 # ds \<Rightarrow>
          (let a = slice_index d1 start; b = slice_index d1 stop; p = prod_list ds
           in Inr (t\<lparr>outer := d0 # (b - a) # ds,
                     vecs := concat (map (\<lambda>i. take ((b - a) * p) (drop ((i * d1 + a) * p) (vecs t)))
                                         [0..<d0])\<rparr>)))"




section \<open>The models and their collaborators\<close>

text \<open>
  An \<open>Encoder\<close> or a \<open>WaveNet\<close>: a module that owns a stretch of the chain and keeps
  named handles into it in its dictionary \<open>vc\<close>.  The source assigns \<open>trim_ups_out\<close>
  on the decoder.  Everything else of the module (its layers and learned parameters) is
  \<open>weights\<close>, of an arbitrary type.
\<close>

record 'w vc_module =
  vc :: "string \<rightharpoonup> nat"
  trim_ups_out :: "(int \<times> int) option"
  weights :: 'w

text \<open>
  A bottleneck, with the attributes \<open>init_codebook\<close> reads and writes; an attribute a
  bottleneck class does not have is \<open>None\<close>.
\<close>

record ('w, 'a) bottleneck =
  emb :: "'a tensor option"
  ema_numer :: "'a tensor option"
  ema_denom :: "'a tensor option"
  ema_gamma_comp :: "'a tensor option"
  n_sum_ones :: "'a tensor option"
  bn_weights :: 'w

record ('w, 'a) objective =
  metrics :: "string \<rightharpoonup> 'a"
  obj_weights :: 'w

text \<open>
  \<open>init_args\<close> is a dictionary whose values are parameter dictionaries and option values.
\<close>

datatype init_arg = Params pydict | Value pyval

text \<open>
  The first use of a value of \<open>init_args\<close> as a dictionary (\<open>d[k]\<close> or \<open>**d\<close>):
  Python raises \<open>TypeError\<close> for a value that is not one.
\<close>

definition params :: "init_arg \<Rightarrow> py_error + pydict" where
  "params a = (case a of Params d \<Rightarrow> Inr d
                | Value v \<Rightarrow> Inl (TypeError ''not a dictionary''))"

text \<open>
  What the two classes share: the attributes both assign in \<open>_initialize\<close>,
  \<open>_init_geometry\<close> and \<open>run\<close>, and \<open>heap\<close>, the nodes of the chain their modules
  refer to.  The attributes of \<open>_init_geometry\<close> and \<open>run\<close> are there once assigned.
\<close>

record ('w, 'a) model =
  init_args :: "string \<rightharpoonup> init_arg"
  bn_type :: pyval
  preprocess :: 'w
  objective :: "('w, 'a) objective"
  heap :: vc_heap
  enc_in_len :: "int option"
  enc_in_mel_len :: "int option"
  embed_len :: "int option"
  dec_in_len :: "int option"
  trim_dec_in :: "(int \<times> int) option"
  trim_dec_out :: "(int \<times> int) option"
  wav_onehot_dec :: "'a tensor option"

record ('w, 'a) AutoEncoder = "('w, 'a) model" +
  encoder :: "'w vc_module"
  bottleneck :: "('w, 'a) bottleneck"
  decoder :: "'w vc_module"
  encoding_bn :: "'a tensor option"

record ('w, 'a) MfccInverter = "('w, 'a) model" +
  wavenet :: "'w vc_module"

text \<open>
  The constructors of the modules the two classes assemble; none is in the two files.
  Each is a parameter, named after the class it stands for, that takes the arguments the
  source passes and may raise.  \<open>Encoder\<close> and \<open>WaveNet\<close> take the handle of the parent
  node and add their own nodes to the heap.  \<open>WaveNet_post_init\<close> is the decoder's
  \<open>post_init\<close>; it acts on the decoder's layers, not on its handles or trim.
\<close>

record ('w, 'a) constructors =
  PreProcess :: "pyval \<Rightarrow> string + 'w"
  Encoder :: "init_arg \<Rightarrow> nat option \<Rightarrow> pydict \<Rightarrow> vc_heap \<Rightarrow> string + 'w vc_module \<times> vc_heap"
  WaveNet :: "pydict \<Rightarrow> nat option \<Rightarrow> pyval \<Rightarrow> vc_heap \<Rightarrow> string + 'w vc_module \<times> vc_heap"
  WaveNet_post_init :: "'w \<Rightarrow> string + 'w"
  RecLoss :: "string + ('w, 'a) objective"
  VQ :: "pydict \<Rightarrow> pyval \<Rightarrow> string + ('w, 'a) bottleneck"
  VQLoss :: "('w, 'a) bottleneck \<Rightarrow> string + ('w, 'a) objective"
  VQEMA :: "pydict \<Rightarrow> pyval \<Rightarrow> init_arg \<Rightarrow> string + ('w, 'a) bottleneck"
  VQEMALoss :: "('w, 'a) bottleneck \<Rightarrow> string + ('w, 'a) objective"
  VAE :: "pyval \<Rightarrow> pyval \<Rightarrow> string + ('w, 'a) bottleneck"
  SGVBLoss :: "('w, 'a) bottleneck \<Rightarrow> pyval \<Rightarrow> string + ('w, 'a) objective"
  AE :: "pyval \<Rightarrow> pyval \<Rightarrow> string + ('w, 'a) bottleneck"
  AELoss :: "('w, 'a) bottleneck \<Rightarrow> pyval \<Rightarrow> string + ('w, 'a) objective"

section \<open>\<open>_init_geometry\<close>\<close>

text \<open>
  A method is a function from the object to the outcome and the object as the method
  leaves it: an exception keeps the attributes assigned before it.  The docstring of
  \<open>AutoEncoder._init_geometry\<close> lists \<open>self.trim_ups_out\<close>; the code assigns the
  tensor to \<open>self.decoder.trim_ups_out\<close> (\<open>self.wavenet.trim_ups_out\<close> in
  \<open>MfccInverter\<close>), and so does the model.
\<close>

definition AutoEncoder_init_geometry ::
  "resolver \<Rightarrow> int \<Rightarrow> ('w, 'a) AutoEncoder \<Rightarrow> (py_error + unit) \<times> ('w, 'a) AutoEncoder" where
  "AutoEncoder_init_geometry R batch_win_size self =
     (let w = batch_win_size;
          do = \<lparr>lower_bound = (0, 100000), sub = (0, w), stride = 1\<rparr>
      in case
           and_then (getitem (vc (encoder self)) ''beg'') (\<lambda>beg.
           let mfcc_vc = parent (heap self beg) in
           and_then (getitem (vc (encoder self)) ''end'') (\<lambda>end_enc_vc.
           and_then (getitem (vc (decoder self)) ''last_upsample'') (\<lambda>end_ups_vc.
           and_then (getitem (vc (decoder self)) ''beg_grcc'') (\<lambda>beg_grcc_vc.
           and_then (getitem (vc (decoder self)) ''end_grcc'') (\<lambda>end_grcc_vc.
           and_then (ext (input_range R (Some beg_grcc_vc) end_grcc_vc do)) (\<lambda>di.
           and_then (ext (input_range R mfcc_vc end_grcc_vc do)) (\<lambda>ei.
           and_then (getattr mfcc_vc ''child'') (\<lambda>mfcc.
           and_then (ext (input_range R (child (heap self mfcc)) end_grcc_vc do)) (\<lambda>mi.
           and_then (ext (output_range R mfcc end_enc_vc ei)) (\<lambda>eo.
           and_then (ext (output_range R mfcc end_ups_vc ei)) (\<lambda>uo.
           Inr (di, ei, mi, eo, uo))))))))))))
         of
           Inl e \<Rightarrow> (Inl e, self)
         | Inr (di, ei, mi, eo, uo) \<Rightarrow>
             (let self = self\<lparr>enc_in_len := Some (sub_length ei),
                              enc_in_mel_len := Some (sub_length mi),
                              embed_len := Some (sub_length eo),
                              dec_in_len := Some (sub_length di)\<rparr>
              in case torch_long_pair (fst (sub di) - fst (sub ei)) (snd (sub di) - fst (sub ei)) of
                   Inl e \<Rightarrow> (Inl e, self)
                 | Inr t_in \<Rightarrow>
              (let self = self\<lparr>trim_dec_in := Some t_in\<rparr>
               in case torch_long_pair (fst (sub di) - fst (sub uo)) (snd (sub di) - fst (sub uo)) of
                    Inl e \<Rightarrow> (Inl e, self)
                  | Inr t_ups \<Rightarrow>
               (let self = self\<lparr>decoder := (decoder self)\<lparr>trim_ups_out := Some t_ups\<rparr>\<rparr>
                in case torch_long_pair (fst (sub do) - fst (sub di)) (snd (sub do) - fst (sub di)) of
                     Inl e \<Rightarrow> (Inl e, self)
                   | Inr t_out \<Rightarrow> (Inr (), self\<lparr>trim_dec_out := Some t_out\<rparr>)))))"

definition MfccInverter_init_geometry ::
  "resolver \<Rightarrow> ('w, 'a) constructors \<Rightarrow> int \<Rightarrow> ('w, 'a) MfccInverter
     \<Rightarrow> (py_error + unit) \<times> ('w, 'a) MfccInverter" where
  "MfccInverter_init_geometry R C batch_win_size self =
     (let end_gr = \<lparr>lower_bound = (0, 100000), sub = (0, batch_win_size), stride = 1\<rparr>
      in case getitem (vc (wavenet self)) ''end_grcc'' of
           Inl e \<Rightarrow> (Inl e, self)
         | Inr end_vc \<Rightarrow>
      (case ext (compute_inputs R end_vc end_gr) of
           Inl e \<Rightarrow> (Inl e, self)
         | Inr (end_gr_actual, stored) \<Rightarrow>
      (let self = self\<lparr>heap := store_input_gr stored (heap self)\<rparr>
       in case
            and_then (getitem (vc (wavenet self)) ''beg'') (\<lambda>beg.
            let mfcc_vc = parent (heap self beg) in
            and_then (getitem (vc (wavenet self)) ''beg_grcc'') (\<lambda>beg_grcc_vc.
            and_then (getattr mfcc_vc ''in_len'') (\<lambda>mfcc.
            and_then (ext (in_len R mfcc (heap self mfcc))) (\<lambda>enc_in.
            Inr (mfcc, beg_grcc_vc, enc_in)))))
          of
            Inl e \<Rightarrow> (Inl e, self)
          | Inr (mfcc, beg_grcc_vc, enc_in) \<Rightarrow>
       (let self = self\<lparr>enc_in_len := Some enc_in\<rparr>
        in case and_then (getattr (child (heap self mfcc)) ''in_len'')
                  (\<lambda>mel. ext (in_len R mel (heap self mel))) of
             Inl e \<Rightarrow> (Inl e, self)
           | Inr mel_in \<Rightarrow>
        (let self = self\<lparr>enc_in_mel_len := Some mel_in, embed_len := Some mel_in\<rparr>
         in case ext (in_len R beg_grcc_vc (heap self beg_grcc_vc)) of
              Inl e \<Rightarrow> (Inl e, self)
            | Inr dec_in \<Rightarrow>
         (let self = self\<lparr>dec_in_len := Some dec_in\<rparr>
          in case
               and_then (getattr (input_gr (heap self beg_grcc_vc)) ''input_gr'') (\<lambda>di.
               and_then (getattr (input_gr (heap self mfcc)) ''input_gr'') (\<lambda>wi.
               and_then
                 (torch_long_pair (fst (sub di) - fst (sub wi)) (snd (sub di) - fst (sub wi)))
                 (\<lambda>t_in. Inr (di, t_in))))
             of
               Inl e \<Rightarrow> (Inl e, self)
             | Inr (di, t_in) \<Rightarrow>
          (let self = self\<lparr>trim_dec_in := Some t_in\<rparr>
           in case torch_long_pair (fst (sub end_gr) - fst (sub di))
                                   (snd (sub end_gr) - fst (sub di)) of
                Inl e \<Rightarrow> (Inl e, self)
              | Inr t_out \<Rightarrow>
           (let self = self\<lparr>trim_dec_out := Some t_out\<rparr>
            in case and_then (ext (in_len R beg_grcc_vc (heap self beg_grcc_vc))) (torch_long_pair 0) of
                 Inl e \<Rightarrow> (Inl e, self)
               | Inr t_ups \<Rightarrow>
            (let self = self\<lparr>wavenet := (wavenet self)\<lparr>trim_ups_out := Some t_ups\<rparr>\<rparr>
             in case ext (WaveNet_post_init C (weights (wavenet self))) of
                  Inl e \<Rightarrow> (Inl e, self)
                | Inr ws \<Rightarrow>
                    (Inr (), self\<lparr>wavenet := (wavenet self)\<lparr>weights := ws\<rparr>\<rparr>))))))))))"

section \<open>\<open>__init__\<close>, \<open>_initialize\<close>, \<open>__getstate__\<close> and \<open>__setstate__\<close>\<close>

text \<open>
  A call \<open>f(k1=v1, **d)\<close>: Python refuses a dictionary \<open>d\<close> that holds one of the
  keywords written out in the call.
\<close>

definition kwargs :: "string list \<Rightarrow> pydict \<Rightarrow> py_error + pydict" where
  "kwargs explicit d =
     (if list_ex (\<lambda>k. d k \<noteq> None) explicit
      then Inl (TypeError ''got multiple values for keyword argument'')
      else Inr d)"

text \<open>
  \<open>AutoEncoder._initialize\<close>.  It reads \<open>self.init_args\<close> and assigns every other
  attribute of a model that has no geometry yet; \<open>heap0\<close> holds the nodes that exist
  before it runs.  The name \<open>InvalidArgument\<close> of the last branch is neither defined nor
  imported in autoencoder_model.py, so evaluating it raises \<open>NameError\<close>.
\<close>

definition AutoEncoder_initialize ::
  "('w, 'a) constructors \<Rightarrow> vc_heap \<Rightarrow> (string \<rightharpoonup> init_arg) \<Rightarrow> py_error + ('w, 'a) AutoEncoder" where
  "AutoEncoder_initialize C heap0 init_args' =
     and_then (getitem init_args' ''enc_params'') (\<lambda>enc_params.
     and_then (getitem init_args' ''bn_params'') (\<lambda>bn_params.
     and_then (getitem init_args' ''dec_params'') (\<lambda>dec_params.
     and_then (getitem init_args' ''n_mel_chan'') (\<lambda>n_mel_chan.
     and_then (getitem init_args' ''training'') (\<lambda>training.
     and_then (params dec_params) (\<lambda>dec_params.
     and_then (getitem dec_params ''n_quant'') (\<lambda>n_quant.
     and_then (ext (PreProcess C n_quant)) (\<lambda>preprocess'.
     and_then (params enc_params) (\<lambda>enc_params.
     and_then (kwargs [''n_in'', ''parent_vc''] enc_params) (\<lambda>enc_kw.
     and_then (ext (Encoder C n_mel_chan None enc_kw heap0)) (\<lambda>(encoder', heap1).
     and_then (params bn_params) (\<lambda>bn_params.
     and_then (getitem bn_params ''type'') (\<lambda>bn_type'.
     let bn_extra = bn_params |` (- {''type''}) in
     and_then
       (if bn_type' = PyStr ''vqvae'' then
          and_then (getitem enc_params ''n_out'') (\<lambda>n_in.
          and_then (kwargs [''n_in''] bn_extra) (\<lambda>bn_kw.
          and_then (ext (VQ C bn_kw n_in)) (\<lambda>bottleneck'.
          and_then (ext (VQLoss C bottleneck')) (\<lambda>objective'.
          Inr (bottleneck', objective')))))
        else if bn_type' = PyStr ''vqvae-ema'' then
          and_then (getitem enc_params ''n_out'') (\<lambda>n_in.
          and_then (kwargs [''n_in'', ''training''] bn_extra) (\<lambda>bn_kw.
          and_then (ext (VQEMA C bn_kw n_in training)) (\<lambda>bottleneck'.
          and_then (ext (VQEMALoss C bottleneck')) (\<lambda>objective'.
          Inr (bottleneck', objective')))))
        else if bn_type' = PyStr ''vae'' then
          and_then (getitem enc_params ''n_out'') (\<lambda>n_in.
          and_then (getitem bn_params ''n_out'') (\<lambda>n_out.
          and_then (ext (VAE C n_in n_out)) (\<lambda>bottleneck'.
          and_then (getitem bn_params ''free_nats'') (\<lambda>free_nats.
          and_then (ext (SGVBLoss C bottleneck' free_nats)) (\<lambda>objective'.
          Inr (bottleneck', objective'))))))
        else if bn_type' = PyStr ''ae'' then
          and_then (getitem bn_extra ''n_out'') (\<lambda>n_out.
          and_then (getitem enc_params ''n_out'') (\<lambda>n_in.
          and_then (ext (AE C n_out n_in)) (\<lambda>bottleneck'.
          and_then (ext (AELoss C bottleneck' (PyFloat 0.001))) (\<lambda>objective'.
          Inr (bottleneck', objective')))))
        else Inl (NameError ''InvalidArgument''))
       (\<lambda>(bottleneck', objective').
     and_then (getitem (vc encoder') ''end'') (\<lambda>parent_vc.
     and_then (getitem bn_params ''n_out'') (\<lambda>n_lc_in.
     and_then (kwargs [''parent_vc'', ''n_lc_in''] dec_params) (\<lambda>dec_kw.
     and_then (ext (WaveNet C dec_kw (Some parent_vc) n_lc_in heap1)) (\<lambda>(decoder', heap2).
     and_then (ext (WaveNet_post_init C (weights decoder'))) (\<lambda>ws.
     Inr \<lparr>init_args = init_args', bn_type = bn_type', preprocess = preprocess',
          objective = objective', heap = heap2,
          enc_in_len = None, enc_in_mel_len = None, embed_len = None, dec_in_len = None,
          trim_dec_in = None, trim_dec_out = None, wav_onehot_dec = None,
          encoder = encoder', bottleneck = bottleneck',
          decoder = decoder'\<lparr>weights := ws\<rparr>, encoding_bn = None\<rparr>)))))))))))))))))))"

text \<open>
  \<open>MfccInverter._initialize\<close>.
\<close>

definition MfccInverter_initialize ::
  "('w, 'a) constructors \<Rightarrow> vc_heap \<Rightarrow> (string \<rightharpoonup> init_arg) \<Rightarrow> py_error + ('w, 'a) MfccInverter" where
  "MfccInverter_initialize C heap0 init_args' =
     and_then (getitem init_args' ''dec_params'') (\<lambda>dec_params.
     and_then (getitem init_args' ''mi_params'') (\<lambda>mi_params.
     and_then (params dec_params) (\<lambda>dec_params.
     and_then (getitem dec_params ''n_quant'') (\<lambda>n_quant.
     and_then (ext (PreProcess C n_quant)) (\<lambda>preprocess'.
     and_then (params mi_params) (\<lambda>mi_params.
     and_then (getitem mi_params ''n_lc_in'') (\<lambda>n_lc_in.
     and_then (kwargs [''parent_vc'', ''n_lc_in''] dec_params) (\<lambda>dec_kw.
     and_then (ext (WaveNet C dec_kw None n_lc_in heap0)) (\<lambda>(wavenet', heap1).
     and_then (ext (RecLoss C)) (\<lambda>objective'.
     Inr \<lparr>init_args = init_args', bn_type = PyStr ''none'', preprocess = preprocess',
          objective = objective', heap = heap1,
          enc_in_len = None, enc_in_mel_len = None, embed_len = None, dec_in_len = None,
          trim_dec_in = None, trim_dec_out = None, wav_onehot_dec = None,
          wavenet = wavenet'\<rparr>))))))))))"

text \<open>
  \<open>__init__\<close> builds \<open>init_args\<close> from the options and the dataset and calls
  \<open>_initialize\<close>.  \<open>opts_dict\<close> is \<open>vars(opts)\<close>; \<open>parse_tools.get_prefixed_items\<close> is
  not in the two files and is a parameter; of the dataset the two constructors read
  \<open>num_speakers()\<close> and \<open>num_mel_chan()\<close>.
\<close>

record dataset =
  num_speakers :: pyval
  num_mel_chan :: pyval

definition AutoEncoder_init ::
  "('w, 'a) constructors \<Rightarrow> (pydict \<Rightarrow> string \<Rightarrow> pydict) \<Rightarrow> vc_heap \<Rightarrow> pydict \<Rightarrow> dataset
     \<Rightarrow> py_error + ('w, 'a) AutoEncoder" where
  "AutoEncoder_init C get_prefixed_items heap0 opts_dict dataset =
     (let enc_params = get_prefixed_items opts_dict ''enc_'';
          bn_params = get_prefixed_items opts_dict ''bn_'';
          dec_params = get_prefixed_items opts_dict ''dec_'';
          dec_params = dec_params(''n_speakers'' \<mapsto> num_speakers dataset)
      in and_then (getattr (opts_dict ''training'') ''training'') (\<lambda>training.
         AutoEncoder_initialize C heap0
           [''enc_params'' \<mapsto> Params enc_params,
            ''bn_params'' \<mapsto> Params bn_params,
            ''dec_params'' \<mapsto> Params dec_params,
            ''n_mel_chan'' \<mapsto> Value (num_mel_chan dataset),
            ''training'' \<mapsto> Value training]))"

definition MfccInverter_init ::
  "('w, 'a) constructors \<Rightarrow> (pydict \<Rightarrow> string \<Rightarrow> pydict) \<Rightarrow> vc_heap \<Rightarrow> pydict \<Rightarrow> dataset
     \<Rightarrow> py_error + ('w, 'a) MfccInverter" where
  "MfccInverter_init C get_prefixed_items heap0 opts_dict dataset =
     (let dec_params = get_prefixed_items opts_dict ''dec_'';
          dec_params = dec_params(''n_speakers'' \<mapsto> num_speakers dataset);
          mi_params = get_prefixed_items opts_dict ''mi_''
      in MfccInverter_initialize C heap0
           [''dec_params'' \<mapsto> Params dec_params, ''mi_params'' \<mapsto> Params mi_params])"





section \<open>Batches, data sources and the tensor operations of the collaborators\<close>

record 'a vbatch =
  mel_enc_input :: "'a tensor"
  wav_dec_input :: "'a tensor"
  voice_index :: "'a tensor"
  jitter_index :: "'a tensor"



text \<open>
  The forward passes of the modules, the loss, automatic differentiation, the statistics
  of a tensor, scipy's \<open>kmeans\<close> (its codebook; the distortion it also returns is dropped by
  the source), the product of two tensors, and the entries \<open>np.empty\<close> leaves in a new
  array.  None is in the two files; each is a parameter.
\<close>

record ('w, 'a) ops =
  call_preprocess :: "'w \<Rightarrow> 'a tensor \<Rightarrow> string + 'a tensor"
  call_encoder :: "'w vc_module \<Rightarrow> 'a tensor \<Rightarrow> string + 'a tensor"
  call_bottleneck :: "('w, 'a) bottleneck \<Rightarrow> 'a tensor \<Rightarrow> string + 'a tensor"
  bottleneck_linear :: "('w, 'a) bottleneck \<Rightarrow> 'a tensor \<Rightarrow> string + 'a tensor"
  call_decoder ::
    "'w vc_module \<Rightarrow> 'a tensor \<Rightarrow> 'a tensor \<Rightarrow> 'a tensor \<Rightarrow> 'a tensor \<Rightarrow> string + 'a tensor"
  call_objective :: "('w, 'a) objective \<Rightarrow> 'a tensor \<Rightarrow> 'a tensor \<Rightarrow> string + 'a"
  autograd_grad :: "'a \<Rightarrow> 'a tensor list \<Rightarrow> string + 'a tensor list"
  tensor_std :: "'a tensor \<Rightarrow> 'a"
  tensor_mean :: "'a tensor \<Rightarrow> 'a"
  kmeans :: "'a tensor \<Rightarrow> nat \<Rightarrow> string + 'a tensor"
  tensor_mul :: "'a tensor \<Rightarrow> 'a tensor \<Rightarrow> string + 'a tensor"
  uninitialised :: "nat \<Rightarrow> nat \<Rightarrow> 'a"






section \<open>\<open>init_codebook\<close>\<close>






section \<open>\<open>forward\<close> and \<open>run\<close>\<close>

definition AutoEncoder_forward ::
  "('w, 'a) ops \<Rightarrow> 'a tensor \<Rightarrow> 'a tensor \<Rightarrow> 'a tensor \<Rightarrow> 'a tensor \<Rightarrow> ('w, 'a) AutoEncoder
     \<Rightarrow> (py_error + 'a tensor) \<times> ('w, 'a) AutoEncoder" where
  "AutoEncoder_forward Ops mels wav_onehot_dec' voice_inds jitter_index' self =
     (case and_then (ext (call_encoder Ops (encoder self) mels))
             (\<lambda>encoding. ext (call_bottleneck Ops (bottleneck self) encoding)) of
        Inl err \<Rightarrow> (Inl err, self)
      | Inr code \<Rightarrow>
          (let self = self\<lparr>encoding_bn := Some code\<rparr>
           in (ext (call_decoder Ops (decoder self) wav_onehot_dec' code voice_inds jitter_index'),
               self)))"

text \<open>
  \<open>a, b = xs\<close> and \<open>(a, ) = xs\<close>: unpacking a sequence of another length raises
  \<open>ValueError\<close>.
\<close>

definition unpack2 :: "'v list \<Rightarrow> py_error + 'v \<times> 'v" where
  "unpack2 xs = (case xs of [a, b] \<Rightarrow> Inr (a, b)
                 | _ \<Rightarrow> Inl (ValueError ''wrong number of values to unpack''))"

definition unpack1 :: "'v list \<Rightarrow> py_error + 'v" where
  "unpack1 xs = (case xs of [a] \<Rightarrow> Inr a
                 | _ \<Rightarrow> Inl (ValueError ''wrong number of values to unpack''))"

definition AutoEncoder_run ::
  "('w, 'a) ops \<Rightarrow> 'a vbatch \<Rightarrow> ('w, 'a) AutoEncoder
     \<Rightarrow> (py_error + 'a tensor \<times> 'a tensor \<times> 'a) \<times> ('w, 'a) AutoEncoder" where
  "AutoEncoder_run Ops vbatch self =
     (case
        and_then (ext (call_preprocess Ops (preprocess self) (wav_dec_input vbatch)))
          (\<lambda>wav_onehot_dec'.
        and_then (getattr (trim_dec_out self) ''trim_dec_out'') (\<lambda>trim.
        and_then (slice_dim1 (fst trim) (snd trim) (wav_dec_input vbatch)) (\<lambda>wav_batch_out.
        Inr (wav_onehot_dec', wav_batch_out))))
      of
        Inl err \<Rightarrow> (Inl err, self)
      | Inr (wav_onehot_dec', wav_batch_out) \<Rightarrow>
     (let self = self\<lparr>wav_onehot_dec := Some wav_onehot_dec'\<rparr>
      in case AutoEncoder_forward Ops (mel_enc_input vbatch) wav_onehot_dec'
                (voice_index vbatch) (jitter_index vbatch) self of
           (Inl err, self) \<Rightarrow> (Inl err, self)
         | (Inr quant, self) \<Rightarrow>
      (let pred = slice_last None (Some (- 1)) quant;
           target = slice_last (Some 1) None wav_batch_out
       in case
            and_then (ext (call_objective Ops (objective self) pred target)) (\<lambda>loss.
            and_then (getattr (encoding_bn self) ''encoding_bn'') (\<lambda>code.
            and_then (ext (autograd_grad Ops loss [mel_enc_input vbatch, code])) (\<lambda>grads.
            and_then (unpack2 grads) (\<lambda>(mel_grad, bn_grad).
            Inr (loss, mel_grad, bn_grad)))))
          of
            Inl err \<Rightarrow> (Inl err, self)
          | Inr (loss, mel_grad, bn_grad) \<Rightarrow>
              (Inr (pred, target, loss),
               self\<lparr>objective := (objective self)
                      \<lparr>metrics := metrics (objective self) ++
                         [''mel_grad_sd'' \<mapsto> tensor_std Ops mel_grad,
                          ''bn_grad_sd'' \<mapsto> tensor_std Ops bn_grad]\<rparr>\<rparr>))))"

definition MfccInverter_forward ::
  "('w, 'a) ops \<Rightarrow> 'a tensor \<Rightarrow> 'a tensor \<Rightarrow> 'a tensor \<Rightarrow> 'a tensor \<Rightarrow> ('w, 'a) MfccInverter
     \<Rightarrow> (py_error + 'a tensor) \<times> ('w, 'a) MfccInverter" where
  "MfccInverter_forward Ops mels wav_onehot_dec' voice_inds jitter_index' self =
     (ext (call_decoder Ops (wavenet self) wav_onehot_dec' mels voice_inds jitter_index'), self)"

definition MfccInverter_run ::
  "('w, 'a) ops \<Rightarrow> 'a vbatch \<Rightarrow> ('w, 'a) MfccInverter
     \<Rightarrow> (py_error + 'a tensor \<times> 'a tensor \<times> 'a) \<times> ('w, 'a) MfccInverter" where
  "MfccInverter_run Ops vbatch self =
     (case
        and_then (ext (call_preprocess Ops (preprocess self) (wav_dec_input vbatch)))
          (\<lambda>wav_onehot_dec'.
        and_then (getattr (trim_dec_out self) ''trim_dec_out'') (\<lambda>trim.
        and_then (slice_dim1 (fst trim) (snd trim) (wav_dec_input vbatch)) (\<lambda>wav_batch_out.
        Inr (wav_onehot_dec', wav_batch_out))))
      of
        Inl err \<Rightarrow> (Inl err, self)
      | Inr (wav_onehot_dec', wav_batch_out) \<Rightarrow>
     (let self = self\<lparr>wav_onehot_dec := Some wav_onehot_dec'\<rparr>
      in case MfccInverter_forward Ops (mel_enc_input vbatch) wav_onehot_dec'
                (voice_index vbatch) (jitter_index vbatch) self of
           (Inl err, self) \<Rightarrow> (Inl err, self)
         | (Inr quant, self) \<Rightarrow>
      (let pred = slice_last None (Some (- 1)) quant;
           target = slice_last (Some 1) None wav_batch_out
       in case
            and_then (ext (call_objective Ops (objective self) pred target)) (\<lambda>loss.
            and_then (ext (autograd_grad Ops loss [mel_enc_input vbatch])) (\<lambda>grads.
            and_then (unpack1 grads) (\<lambda>mel_grad.
            Inr (loss, mel_grad))))
          of
            Inl err \<Rightarrow> (Inl err, self)
          | Inr (loss, mel_grad) \<Rightarrow>
              (Inr (pred, target, loss),
               self\<lparr>objective := (objective self)
                      \<lparr>metrics := metrics (objective self) ++
                         [''mel_grad_sd'' \<mapsto> tensor_std Ops mel_grad,
                          ''mel_grad_mean'' \<mapsto> tensor_mean Ops mel_grad]\<rparr>\<rparr>))))"

section \<open>Concrete inputs\<close>

text \<open>
  A chain of six nodes, 0 to 5, each the parent of the next; node 0 stands for the
  dataset's MFCC node, 1 and 2 for the encoder's first and last, 3 for the last
  upsampling stage, 4 and 5 for the first and last of the decoder's stack.  The resolver
  of the examples gives every node two samples of context on the left.
\<close>

definition ex_resolver :: resolver where
  "ex_resolver =
     \<lparr>input_range = (\<lambda>b e gr. case b of None \<Rightarrow> Inl ''no begin node''
          | Some b \<Rightarrow> Inr (gr\<lparr>sub := (fst (sub gr) - 2 * (int e - int b + 1), snd (sub gr))\<rparr>)),
      output_range = (\<lambda>b e gr.
          Inr (gr\<lparr>sub := (fst (sub gr) + 2 * (int e - int b + 1), snd (sub gr))\<rparr>)),
      compute_inputs = (\<lambda>e gr.
          Inr (gr\<lparr>sub := (fst (sub gr) - 2 * (int e + 1), snd (sub gr))\<rparr>,
               \<lambda>h. if h \<le> e
                    then Some (gr\<lparr>sub := (fst (sub gr) - 2 * (int e - int h + 1), snd (sub gr))\<rparr>)
                    else None)),
      in_len = (\<lambda>h node. case input_gr node of None \<Rightarrow> Inl ''no input range''
          | Some gr \<Rightarrow> Inr (sub_length gr))\<rparr>"

definition ex_heap :: vc_heap where
  "ex_heap = (\<lambda>h. \<lparr>parent = (if h = 0 then None else Some (h - 1)),
                    child = (if h < 5 then Some (h + 1) else None),
                    input_gr = None\<rparr>)"

definition ex_bottleneck :: "(unit, int) bottleneck" where
  "ex_bottleneck =
     \<lparr>emb = Some \<lparr>outer = [2], width = 2, vecs = [[0, 0], [0, 0]]\<rparr>,
      ema_numer = None, ema_denom = None, ema_gamma_comp = None, n_sum_ones = None,
      bn_weights = ()\<rparr>"

definition ex_autoencoder :: "(unit, int) AutoEncoder" where
  "ex_autoencoder =
     \<lparr>init_args = Map.empty, bn_type = PyStr ''vqvae'', preprocess = (),
      objective = \<lparr>metrics = Map.empty, obj_weights = ()\<rparr>, heap = ex_heap,
      enc_in_len = None, enc_in_mel_len = None, embed_len = None, dec_in_len = None,
      trim_dec_in = None, trim_dec_out = None, wav_onehot_dec = None,
      encoder = \<lparr>vc = [''beg'' \<mapsto> 1, ''end'' \<mapsto> 2], trim_ups_out = None, weights = ()\<rparr>,
      bottleneck = ex_bottleneck,
      decoder = \<lparr>vc = [''last_upsample'' \<mapsto> 3, ''beg_grcc'' \<mapsto> 4, ''end_grcc'' \<mapsto> 5],
                 trim_ups_out = None, weights = ()\<rparr>,
      encoding_bn = None\<rparr>"

definition ex_mfcc_inverter :: "(unit, int) MfccInverter" where
  "ex_mfcc_inverter =
     \<lparr>init_args = Map.empty, bn_type = PyStr ''none'', preprocess = (),
      objective = \<lparr>metrics = Map.empty, obj_weights = ()\<rparr>, heap = ex_heap,
      enc_in_len = None, enc_in_mel_len = None, embed_len = None, dec_in_len = None,
      trim_dec_in = None, trim_dec_out = None, wav_onehot_dec = None,
      wavenet = \<lparr>vc = [''beg'' \<mapsto> 1, ''beg_grcc'' \<mapsto> 4, ''end_grcc'' \<mapsto> 5],
                 trim_ups_out = None, weights = ()\<rparr>\<rparr>"

definition ex_constructors :: "(unit, int) constructors" where
  "ex_constructors =
     \<lparr>PreProcess = (\<lambda>n_quant. Inr ()),
      Encoder = (\<lambda>n_in parent_vc kw h.
         Inr (\<lparr>vc = [''beg'' \<mapsto> 1, ''end'' \<mapsto> 2], trim_ups_out = None, weights = ()\<rparr>, h)),
      WaveNet = (\<lambda>kw parent_vc n_lc_in h.
         Inr (\<lparr>vc = [''beg'' \<mapsto> 1, ''last_upsample'' \<mapsto> 3, ''beg_grcc'' \<mapsto> 4, ''end_grcc'' \<mapsto> 5],
               trim_ups_out = None, weights = ()\<rparr>, h)),
      WaveNet_post_init = (\<lambda>ws. Inr ws),
      RecLoss = Inr \<lparr>metrics = Map.empty, obj_weights = ()\<rparr>,
      VQ = (\<lambda>kw n_in. Inr ex_bottleneck),
      VQLoss = (\<lambda>bn. Inr \<lparr>metrics = Map.empty, obj_weights = ()\<rparr>),
      VQEMA = (\<lambda>kw n_in training. Inr ex_bottleneck),
      VQEMALoss = (\<lambda>bn. Inr \<lparr>metrics = Map.empty, obj_weights = ()\<rparr>),
      VAE = (\<lambda>n_in n_out. Inr (ex_bottleneck\<lparr>emb := None\<rparr>)),
      SGVBLoss = (\<lambda>bn free_nats. Inr \<lparr>metrics = Map.empty, obj_weights = ()\<rparr>),
      AE = (\<lambda>n_out n_in. Inr (ex_bottleneck\<lparr>emb := None\<rparr>)),
      AELoss = (\<lambda>bn w. Inr \<lparr>metrics = Map.empty, obj_weights = ()\<rparr>)\<rparr>"




definition ex_vbatch :: "int vbatch" where
  "ex_vbatch =
     \<lparr>mel_enc_input = \<lparr>outer = [1, 2], width = 3, vecs = [[1, 2, 3], [4, 5, 6]]\<rparr>,
      wav_dec_input = \<lparr>outer = [1], width = 8, vecs = [[10, 11, 12, 13, 14, 15, 16, 17]]\<rparr>,
      voice_index = \<lparr>outer = [], width = 1, vecs = [[0]]\<rparr>,
      jitter_index = \<lparr>outer = [1], width = 3, vecs = [[0, 1, 2]]\<rparr>\<rparr>"

definition ex_empty_vbatch :: "int vbatch" where
  "ex_empty_vbatch = ex_vbatch\<lparr>mel_enc_input := \<lparr>outer = [1, 2], width = 0, vecs = [[], []]\<rparr>\<rparr>"




section \<open>Properties of \<open>_init_geometry\<close>\<close>

lemma parent_store_input_gr [simp]: "parent (store_input_gr new h x) = parent (h x)"
  by (simp add: store_input_gr_def split: option.splits)

lemma child_store_input_gr [simp]: "child (store_input_gr new h x) = child (h x)"
  by (simp add: store_input_gr_def split: option.splits)

lemma store_input_gr_idem [simp]:
  "store_input_gr new (store_input_gr new h) = store_input_gr new h"
  by (rule ext) (simp add: store_input_gr_def split: option.splits)

lemma and_then_Inr_iff: "and_then r f = Inr y \<longleftrightarrow> (\<exists>v. r = Inr v \<and> f v = Inr y)"
  by (cases r) (simp_all add: and_then_def)

lemma torch_long_pair_Inr: "torch_long_pair a b = Inr t \<Longrightarrow> t = (a, b)"
  by (simp add: torch_long_pair_def split: if_splits)

lemma AutoEncoder_init_geometry_again:
  "AutoEncoder_init_geometry R w (snd (AutoEncoder_init_geometry R w ae)) =
   AutoEncoder_init_geometry R w ae"
  unfolding AutoEncoder_init_geometry_def Let_def
  by (simp split: sum.split prod.split)

lemma MfccInverter_init_geometry_again:
  assumes "MfccInverter_init_geometry R C w mi = (r1, once)"
      and "MfccInverter_init_geometry R C w once = (r2, twice)"
  shows "enc_in_len twice = enc_in_len once \<and> enc_in_mel_len twice = enc_in_mel_len once \<and>
       embed_len twice = embed_len once \<and> dec_in_len twice = dec_in_len once \<and>
       trim_dec_in twice = trim_dec_in once \<and> trim_dec_out twice = trim_dec_out once \<and>
       trim_ups_out (wavenet twice) = trim_ups_out (wavenet once)"
  apply (insert assms(1)[symmetric])
  apply (simp add: MfccInverter_init_geometry_def Let_def split: sum.split_asm prod.split_asm)
  apply (insert assms(2)[symmetric])
  apply (simp_all add: MfccInverter_init_geometry_def Let_def)
  apply (auto split: sum.split_asm)
  done

text \<open>
  C2: running \<open>_init_geometry\<close> a second time with the same window size leaves the
  derived lengths \<open>enc_in_len\<close>, \<open>enc_in_mel_len\<close>, \<open>embed_len\<close>, \<open>dec_in_len\<close> and
  the trim tensors \<open>trim_dec_in\<close>, \<open>trim_dec_out\<close>, \<open>trim_ups_out\<close> as the first run
  left them, for both models, every resolver and every window size.
\<close>

theorem init_geometry_idempotent:
  "(let once = snd (AutoEncoder_init_geometry R w ae);
        twice = snd (AutoEncoder_init_geometry R w once)
    in enc_in_len twice = enc_in_len once \<and> enc_in_mel_len twice = enc_in_mel_len once \<and>
       embed_len twice = embed_len once \<and> dec_in_len twice = dec_in_len once \<and>
       trim_dec_in twice = trim_dec_in once \<and> trim_dec_out twice = trim_dec_out once \<and>
       trim_ups_out (decoder twice) = trim_ups_out (decoder once)) \<and>
   (let once = snd (MfccInverter_init_geometry R C w mi);
        twice = snd (MfccInverter_init_geometry R C w once)
    in enc_in_len twice = enc_in_len once \<and> enc_in_mel_len twice = enc_in_mel_len once \<and>
       embed_len twice = embed_len once \<and> dec_in_len twice = dec_in_len once \<and>
       trim_dec_in twice = trim_dec_in once \<and> trim_dec_out twice = trim_dec_out once \<and>
       trim_ups_out (wavenet twice) = trim_ups_out (wavenet once))"
proof -
  have ae: "snd (AutoEncoder_init_geometry R w (snd (AutoEncoder_init_geometry R w ae))) =
            snd (AutoEncoder_init_geometry R w ae)"
    by (simp only: AutoEncoder_init_geometry_again)
  have mi: "MfccInverter_init_geometry R C w mi =
            (fst (MfccInverter_init_geometry R C w mi), snd (MfccInverter_init_geometry R C w mi))"
    "MfccInverter_init_geometry R C w (snd (MfccInverter_init_geometry R C w mi)) =
       (fst (MfccInverter_init_geometry R C w (snd (MfccInverter_init_geometry R C w mi))),
        snd (MfccInverter_init_geometry R C w (snd (MfccInverter_init_geometry R C w mi))))"
    by simp_all
  show ?thesis
    unfolding Let_def using ae MfccInverter_init_geometry_again [OF mi] by simp
qed

lemma ext_Inr_iff [simp]: "ext r = Inr v \<longleftrightarrow> r = Inr v"
  by (cases r) (simp_all add: ext_def)

lemma getattr_Inr_iff [simp]: "getattr a name = Inr v \<longleftrightarrow> a = Some v"
  by (cases a) (simp_all add: getattr_def)

text \<open>
  The spans of the trim tensors after \<open>_init_geometry(batch_win_size)\<close> has completed.
  On either model \<open>trim_dec_out[1] - trim_dec_out[0]\<close> is \<open>batch_win_size\<close>.  On
  \<open>AutoEncoder\<close>, \<open>trim_dec_in[1] - trim_dec_in[0]\<close> is the stored \<open>dec_in_len\<close>.
  On \<open>MfccInverter\<close>, \<open>trim_dec_in[1] - trim_dec_in[0]\<close> is the \<open>sub_length\<close> of the
  range stored on \<open>beg_grcc_vc\<close>, and \<open>dec_in_len\<close> is what \<open>beg_grcc_vc.in_len()\<close>
  returned: the two agree when \<open>in_len\<close> is that \<open>sub_length\<close>, which the two files do
  not say.
\<close>

theorem trim_spans:
  "(AutoEncoder_init_geometry R w ae = (Inr (), ae') \<longrightarrow>
      (\<exists>a b c d. trim_dec_out ae' = Some (a, b) \<and> b - a = w \<and>
         trim_dec_in ae' = Some (c, d) \<and> dec_in_len ae' = Some (d - c))) \<and>
   (MfccInverter_init_geometry R C w mi = (Inr (), mi') \<longrightarrow>
      (\<exists>a b. trim_dec_out mi' = Some (a, b) \<and> b - a = w) \<and>
      (\<exists>beg_grcc_vc di c d n.
         getitem (vc (wavenet mi)) ''beg_grcc'' = Inr beg_grcc_vc \<and>
         input_gr (heap mi' beg_grcc_vc) = Some di \<and>
         trim_dec_in mi' = Some (c, d) \<and> d - c = sub_length di \<and>
         in_len R beg_grcc_vc (heap mi' beg_grcc_vc) = Inr n \<and> dec_in_len mi' = Some n))"
proof (intro conjI impI)
  assume "AutoEncoder_init_geometry R w ae = (Inr (), ae')"
  then show "\<exists>a b c d. trim_dec_out ae' = Some (a, b) \<and> b - a = w \<and>
         trim_dec_in ae' = Some (c, d) \<and> dec_in_len ae' = Some (d - c)"
    unfolding AutoEncoder_init_geometry_def Let_def
    by (auto split: sum.splits prod.splits dest!: torch_long_pair_Inr simp: sub_length_def)
next
  assume "MfccInverter_init_geometry R C w mi = (Inr (), mi')"
  then show "\<exists>a b. trim_dec_out mi' = Some (a, b) \<and> b - a = w"
    unfolding MfccInverter_init_geometry_def Let_def
    by (auto split: sum.splits prod.splits dest!: torch_long_pair_Inr)
next
  assume "MfccInverter_init_geometry R C w mi = (Inr (), mi')"
  then show "\<exists>beg_grcc_vc di c d n.
         getitem (vc (wavenet mi)) ''beg_grcc'' = Inr beg_grcc_vc \<and>
         input_gr (heap mi' beg_grcc_vc) = Some di \<and>
         trim_dec_in mi' = Some (c, d) \<and> d - c = sub_length di \<and>
         in_len R beg_grcc_vc (heap mi' beg_grcc_vc) = Inr n \<and> dec_in_len mi' = Some n"
    unfolding MfccInverter_init_geometry_def Let_def
    by (auto split: sum.splits prod.splits dest!: torch_long_pair_Inr
        simp: sub_length_def and_then_Inr_iff)
qed

lemma ex_autoencoder_geometry:
  "AutoEncoder_init_geometry ex_resolver 4 ex_autoencoder =
   (Inr (), ex_autoencoder\<lparr>enc_in_len := Some 16, enc_in_mel_len := Some 14, embed_len := Some 10,
       dec_in_len := Some 8, trim_dec_in := Some (8, 16), trim_dec_out := Some (4, 8),
       decoder := (decoder ex_autoencoder)\<lparr>trim_ups_out := Some (0, 8)\<rparr>\<rparr>)"
  by (simp add: AutoEncoder_init_geometry_def ex_autoencoder_def ex_resolver_def ex_heap_def
      getitem_def and_then_def ext_def getattr_def sub_length_def torch_long_pair_def in_int64_def)

lemma ex_mfcc_inverter_geometry:
  "fst (MfccInverter_init_geometry ex_resolver ex_constructors 4 ex_mfcc_inverter) = Inr ()"
  by (simp add: MfccInverter_init_geometry_def ex_mfcc_inverter_def ex_resolver_def ex_heap_def
      ex_constructors_def store_input_gr_def Let_def
      getitem_def and_then_def ext_def getattr_def sub_length_def torch_long_pair_def in_int64_def)

theorem trim_spans_witness:
  "fst (AutoEncoder_init_geometry ex_resolver 4 ex_autoencoder) = Inr () \<and>
   (\<exists>a b c d. trim_dec_out (snd (AutoEncoder_init_geometry ex_resolver 4 ex_autoencoder)) = Some (a, b) \<and>
      b - a = 4 \<and>
      trim_dec_in (snd (AutoEncoder_init_geometry ex_resolver 4 ex_autoencoder)) = Some (c, d) \<and>
      dec_in_len (snd (AutoEncoder_init_geometry ex_resolver 4 ex_autoencoder)) = Some (d - c)) \<and>
   fst (MfccInverter_init_geometry ex_resolver ex_constructors 4 ex_mfcc_inverter) = Inr () \<and>
   (\<exists>a b.
      trim_dec_out (snd (MfccInverter_init_geometry ex_resolver ex_constructors 4 ex_mfcc_inverter)) = Some (a, b) \<and>
      b - a = 4)"
proof -
  have ae: "AutoEncoder_init_geometry ex_resolver 4 ex_autoencoder =
      (Inr (), snd (AutoEncoder_init_geometry ex_resolver 4 ex_autoencoder))"
    by (simp add: ex_autoencoder_geometry)
  have mi: "MfccInverter_init_geometry ex_resolver ex_constructors 4 ex_mfcc_inverter =
      (Inr (), snd (MfccInverter_init_geometry ex_resolver ex_constructors 4 ex_mfcc_inverter))"
    using ex_mfcc_inverter_geometry by (simp add: prod_eq_iff)
  note t = trim_spans [of ex_resolver 4 ex_autoencoder
      "snd (AutoEncoder_init_geometry ex_resolver 4 ex_autoencoder)" ex_constructors ex_mfcc_inverter
      "snd (MfccInverter_init_geometry ex_resolver ex_constructors 4 ex_mfcc_inverter)"]
  from t ae have 1: "\<exists>a b c d.
      trim_dec_out (snd (AutoEncoder_init_geometry ex_resolver 4 ex_autoencoder)) = Some (a, b) \<and>
      b - a = 4 \<and>
      trim_dec_in (snd (AutoEncoder_init_geometry ex_resolver 4 ex_autoencoder)) = Some (c, d) \<and>
      dec_in_len (snd (AutoEncoder_init_geometry ex_resolver 4 ex_autoencoder)) = Some (d - c)"
    by blast
  from t mi have 2: "\<exists>a b.
      trim_dec_out (snd (MfccInverter_init_geometry ex_resolver ex_constructors 4 ex_mfcc_inverter)) = Some (a, b) \<and>
      b - a = 4"
    by blast
  have f1: "fst (AutoEncoder_init_geometry ex_resolver 4 ex_autoencoder) = Inr ()"
    by (simp add: ex_autoencoder_geometry)
  show ?thesis by (intro conjI f1 1 ex_mfcc_inverter_geometry 2)
qed



section \<open>Properties of \<open>_initialize\<close>, \<open>__getstate__\<close> and \<open>__setstate__\<close>\<close>








section \<open>Properties of \<open>init_codebook\<close>\<close>







end
